theory Spec2Isabelle
  imports Main "HOL-Library.Log_Nat" "HOL-Library.AList" "HOL-Library.Multiset" "HOL-Library.Sublist"
begin

section \<open>JavaScript values used by the expense tracker\<close>

subsection \<open>Numbers\<close>

text \<open>
  A JavaScript number is an IEEE 754 binary64 value. \<open>Finite r\<close> carries the exact
  rational value of a finite double. The two zeros are one value here: the program only
  adds, compares with \<open>>\<close>, tests truthiness and divides by a divisor it has checked to be
  positive, and none of these tells \<open>-0\<close> from \<open>+0\<close>.
\<close>

datatype jsnumber = Finite rat | NaN | PosInf | NegInf

text \<open>
  \<open>floor_log2 x\<close> is the binary exponent of a positive rational: \<open>2^k
  \<le> x < 2^(k+1)\<close>.
\<close>

definition floor_log2 :: "rat \<Rightarrow> int" where
  "floor_log2 x =
     (let (p, q) = quotient_of x; d = bitlen p - bitlen q
      in if 2 powi d \<le> x then d else d - 1)"

definition round_half_even :: "rat \<Rightarrow> int" where
  "round_half_even x =
     (let f = \<lfloor>x\<rfloor>; d = x - of_int f
      in if d < 1 / 2 then f else if 1 / 2 < d then f + 1
         else if even f then f else f + 1)"

text \<open>
  Rounding of an exact result to binary64, round-to-nearest, ties-to-even. The result is
  \<open>m * 2^e\<close> with a significand \<open>m\<close> of at most 53 bits and an exponent \<open>e\<close> of at least
  \<open>-1074\<close> (below \<open>2^-1022\<close> the values are subnormal). The largest double is
  \<open>(2^53 - 1) * 2^971\<close>; a result that rounds to \<open>2^1024\<close> or more is an infinity.
\<close>

definition round_double :: "rat \<Rightarrow> jsnumber" where
  "round_double x =
     (if x = 0 then Finite 0
      else let a = \<bar>x\<bar>;
               e = max (floor_log2 a - 52) (- 1074);
               m = round_half_even (a / 2 powi e)
           in if 971 < e \<or> (e = 971 \<and> 2 ^ 53 \<le> m) then (if 0 < x then PosInf else NegInf)
              else Finite (if 0 < x then of_int m * 2 powi e else - (of_int m * 2 powi e)))"

text \<open>The operator \<open>+\<close> on two numbers.\<close>

fun js_add :: "jsnumber \<Rightarrow> jsnumber \<Rightarrow> jsnumber" where
  "js_add NaN _ = NaN"
| "js_add _ NaN = NaN"
| "js_add PosInf NegInf = NaN"
| "js_add NegInf PosInf = NaN"
| "js_add PosInf _ = PosInf"
| "js_add _ PosInf = PosInf"
| "js_add NegInf _ = NegInf"
| "js_add _ NegInf = NegInf"
| "js_add (Finite a) (Finite b) = round_double (a + b)"

fun js_neg :: "jsnumber \<Rightarrow> jsnumber" where
  "js_neg (Finite a) = Finite (- a)"
| "js_neg NaN = NaN"
| "js_neg PosInf = NegInf"
| "js_neg NegInf = PosInf"

text \<open>
  The comparison \<open>x > 0\<close> and the truthiness of a number (\<open>0\<close> and
  \<open>NaN\<close> are falsy).
\<close>

fun js_positive :: "jsnumber \<Rightarrow> bool" where
  "js_positive (Finite a) = (0 < a)"
| "js_positive PosInf = True"
| "js_positive _ = False"

fun truthy_number :: "jsnumber \<Rightarrow> bool" where
  "truthy_number (Finite a) = (a \<noteq> 0)"
| "truthy_number NaN = False"
| "truthy_number _ = True"

subsection \<open>Strings\<close>

text \<open>
  Strings are byte strings. \<open>toLowerCase\<close> and the white space removed by \<open>trim\<close> and
  skipped by \<open>parseFloat\<close> are modelled on the ASCII range; other bytes are left as
  they are.
\<close>

definition toLowerCase :: "string \<Rightarrow> string" where
  "toLowerCase s =
     map (\<lambda>c. let n = (of_char c :: int) in if 65 \<le> n \<and> n \<le> 90 then char_of (n + 32) else c) s"

definition is_space :: "char \<Rightarrow> bool" where
  "is_space c = ((of_char c :: int) \<in> {9, 10, 11, 12, 13, 32})"

definition trim :: "string \<Rightarrow> string" where
  "trim s = rev (dropWhile is_space (rev (dropWhile is_space s)))"

definition is_digit :: "char \<Rightarrow> bool" where
  "is_digit c = (48 \<le> (of_char c :: int) \<and> (of_char c :: int) \<le> 57)"

definition digits_val :: "string \<Rightarrow> int" where
  "digits_val s = foldl (\<lambda>n c. 10 * n + (of_char c - 48)) 0 s"

subsection \<open>Request fields and \<open>parseFloat\<close>\<close>

text \<open>
  A field of a request body or query is absent (\<open>undefined\<close> after destructuring), JSON
  \<open>null\<close>, or a value. The fields \<open>date\<close>, \<open>description\<close> and \<open>name\<close> carry strings and
  \<open>amount\<close> a number or a string, the types the API documents for them.
\<close>

datatype 'a param = Undefined | Null | Val 'a

datatype numeric = Num jsnumber | Str string

text \<open>
  The handlers store a \<open>category\<close> as it is sent, and call \<open>toLowerCase\<close> on it later, so a
  category, in a request or in the store, is any value: \<open>JString s\<close> is the string \<open>s\<close>;
  \<open>JOther t k\<close> is a value that is not a string (a number, a boolean, an array or an
  object), where \<open>t\<close> tells whether it is truthy and \<open>k\<close> is its conversion to a string,
  which is the property key it stands for. The number \<open>123\<close> is \<open>JOther True ''123''\<close>.
\<close>

datatype json_value = JString string | JOther bool string

fun truthy_value :: "json_value param \<Rightarrow> bool" where
  "truthy_value (Val (JString s)) = (s \<noteq> [])"
| "truthy_value (Val (JOther t k)) = t"
| "truthy_value _ = False"

fun the_value :: "json_value param \<Rightarrow> json_value" where
  "the_value (Val v) = v"
| "the_value _ = JString []"

text \<open>The property key that a value denotes in \<open>acc[value]\<close>.\<close>

fun property_key :: "json_value \<Rightarrow> string" where
  "property_key (JString s) = s"
| "property_key (JOther t k) = k"

fun truthy_string :: "string param \<Rightarrow> bool" where
  "truthy_string (Val s) = (s \<noteq> [])"
| "truthy_string _ = False"

fun truthy_numeric :: "numeric param \<Rightarrow> bool" where
  "truthy_numeric (Val (Num n)) = truthy_number n"
| "truthy_numeric (Val (Str s)) = (s \<noteq> [])"
| "truthy_numeric _ = False"

fun the_string :: "string param \<Rightarrow> string" where
  "the_string (Val s) = s"
| "the_string _ = []"

text \<open>
  \<open>ExponentPart\<close> of a \<open>StrDecimalLiteral\<close>: the exponent when a complete exponent part
  starts the string, \<open>0\<close> when none does (it is then not part of the longest prefix).
\<close>

definition parse_exponent :: "string \<Rightarrow> int" where
  "parse_exponent s =
     (case s of
        [] \<Rightarrow> 0
      | e # r \<Rightarrow>
          if e = CHR ''e'' \<or> e = CHR ''E'' then
            (case r of
               [] \<Rightarrow> 0
             | sg # r' \<Rightarrow>
                 if sg = CHR ''+'' \<or> sg = CHR ''-'' then
                   (let ds = takeWhile is_digit r'
                    in if ds = [] then 0
                       else if sg = CHR ''-'' then - digits_val ds else digits_val ds)
                 else (let ds = takeWhile is_digit r in if ds = [] then 0 else digits_val ds))
          else 0)"

text \<open>
  The longest prefix that is a \<open>StrUnsignedDecimalLiteral\<close>, and its value.
\<close>

definition parse_unsigned :: "string \<Rightarrow> jsnumber" where
  "parse_unsigned s =
     (if take 8 s = ''Infinity'' then PosInf
      else let ip = takeWhile is_digit s; r1 = dropWhile is_digit s
           in case r1 of
                [] \<Rightarrow> if ip = [] then NaN else round_double (of_int (digits_val ip))
              | c # r2 \<Rightarrow>
                  if c = CHR ''.'' then
                    (let fp = takeWhile is_digit r2; r3 = dropWhile is_digit r2
                     in if ip = [] \<and> fp = [] then NaN
                        else round_double (of_int (digits_val (ip @ fp))
                               * 10 powi (parse_exponent r3 - int (length fp))))
                  else if ip = [] then NaN
                  else round_double (of_int (digits_val ip) * 10 powi parse_exponent r1))"

definition parseFloat_string :: "string \<Rightarrow> jsnumber" where
  "parseFloat_string s =
     (case dropWhile is_space s of
        [] \<Rightarrow> NaN
      | c # r \<Rightarrow>
          if c = CHR ''+'' then parse_unsigned r
          else if c = CHR ''-'' then js_neg (parse_unsigned r)
          else parse_unsigned (c # r))"

text \<open>
  \<open>parseFloat\<close> converts its argument to a string first. A number prints to a string that
  reads back as the same number; \<open>undefined\<close> and \<open>null\<close> print to words that do not start
  a numeral.
\<close>

fun parseFloat :: "numeric param \<Rightarrow> jsnumber" where
  "parseFloat (Val (Num n)) = n"
| "parseFloat (Val (Str s)) = parseFloat_string s"
| "parseFloat _ = NaN"

section \<open>The backend: in-memory store and route handlers\<close>

record expense =
  ident :: string
  amount :: jsnumber
  category :: json_value
  date :: string
  description :: "string param"

text \<open>
  The expense store is the module-level array \<open>expenses\<close>, the category registry the array
  \<open>categories\<close>. A handler is a function of the request's fields and the array; it returns
  the response and the array after the request. The field \<open>id\<close> of an expense is \<open>ident\<close>
  here.

  A response: \<open>Success status data\<close> is \<open>res.status(status).json({success: true, data, ...})\<close>
  (the constant \<open>message\<close> and the \<open>count\<close> of a listing, which is the length of \<open>data\<close>,
  are left out), \<open>Failure status error\<close> is
  \<open>res.status(status).json({success: false, error})\<close>.
\<close>

datatype 'a response = Success nat 'a | Failure nat string

fun status :: "'a response \<Rightarrow> nat" where
  "status (Success st _) = st"
| "status (Failure st _) = st"

definition initial_categories :: "string list" where
  "initial_categories =
     [''Food'', ''Transport'', ''Entertainment'', ''Utilities'', ''Healthcare'', ''Shopping'']"

text \<open>
  \<open>Array.prototype.findIndex\<close>; \<open>None\<close> is the result
  \<open>-1\<close>.
\<close>

fun findIndex :: "('a \<Rightarrow> bool) \<Rightarrow> 'a list \<Rightarrow> nat option" where
  "findIndex P [] = None"
| "findIndex P (x # xs) = (if P x then Some 0 else map_option Suc (findIndex P xs))"

text \<open>
  The callback of \<open>filter\<close> in \<open>GET /api/expenses\<close>:
  \<open>expense.category.toLowerCase() === category.toLowerCase()\<close>. A value that is not a
  string has no method \<open>toLowerCase\<close>, and the call throws a \<open>TypeError\<close>; \<open>Inl\<close> carries its
  message. The left operand is evaluated first.
\<close>

fun category_matches :: "json_value \<Rightarrow> expense \<Rightarrow> string + bool" where
  "category_matches cat expense =
     (case category expense of
        JOther t k \<Rightarrow> Inl ''expense.category.toLowerCase is not a function''
      | JString c \<Rightarrow>
          (case cat of
             JOther t k \<Rightarrow> Inl ''category.toLowerCase is not a function''
           | JString f \<Rightarrow> Inr (toLowerCase c = toLowerCase f)))"

text \<open>\<open>expenses.filter(callback)\<close>: the first exception of the callback ends the loop.\<close>

fun filter_expenses :: "json_value \<Rightarrow> expense list \<Rightarrow> string + expense list" where
  "filter_expenses cat [] = Inr []"
| "filter_expenses cat (expense # rest) =
     (case category_matches cat expense of
        Inl message \<Rightarrow> Inl message
      | Inr keep \<Rightarrow>
          (case filter_expenses cat rest of
             Inl message \<Rightarrow> Inl message
           | Inr kept \<Rightarrow> Inr (if keep then expense # kept else kept)))"

text \<open>
  \<open>GET /api/expenses\<close> with the query parameter \<open>category\<close>. The \<open>catch\<close> clause answers an
  exception with status 500 and its message.
\<close>

definition list_expenses :: "json_value param \<Rightarrow> expense list \<Rightarrow> expense list response" where
  "list_expenses cat expenses =
     (if truthy_value cat \<and> the_value cat \<noteq> JString ''All''
      then (case filter_expenses (the_value cat) expenses of
              Inl message \<Rightarrow> Failure 500 message
            | Inr filteredExpenses \<Rightarrow> Success 200 filteredExpenses)
      else Success 200 expenses)"

text \<open>
  \<open>POST /api/expenses\<close>. The first argument is the identifier that \<open>uuidv4()\<close> returns
  for this request.
\<close>

definition create_expense ::
  "string \<Rightarrow> numeric param \<Rightarrow> json_value param \<Rightarrow> string param \<Rightarrow> string param
     \<Rightarrow> expense list \<Rightarrow> expense response \<times> expense list" where
  "create_expense uuid amt cat dat descr expenses =
     (if \<not> truthy_numeric amt \<or> \<not> truthy_value cat \<or> \<not> truthy_string dat
      then (Failure 400 ''Amount, category, and date are required'', expenses)
      else let newExpense =
                 \<lparr>ident = uuid, amount = parseFloat amt, category = the_value cat,
                  date = the_string dat,
                  description = (if truthy_string descr then descr else Val [])\<rparr>
           in (Success 201 newExpense, expenses @ [newExpense]))"

text \<open>\<open>PUT /api/expenses/:id\<close>.\<close>

definition update_expense ::
  "string \<Rightarrow> numeric param \<Rightarrow> json_value param \<Rightarrow> string param \<Rightarrow> string param
     \<Rightarrow> expense list \<Rightarrow> expense response \<times> expense list" where
  "update_expense i amt cat dat descr expenses =
     (case findIndex (\<lambda>e. ident e = i) expenses of
        None \<Rightarrow> (Failure 404 ''Expense not found'', expenses)
      | Some index \<Rightarrow>
          let old = expenses ! index;
              updated = old
                \<lparr>amount := (if amt \<noteq> Undefined then parseFloat amt else amount old),
                 category := (if truthy_value cat then the_value cat else category old),
                 date := (if truthy_string dat then the_string dat else date old),
                 description := (if descr \<noteq> Undefined then descr else description old)\<rparr>
          in (Success 200 updated, expenses[index := updated]))"

text \<open>
  \<open>DELETE /api/expenses/:id\<close>; \<open>splice(index, 1)\<close> removes one
  element.
\<close>

definition delete_expense ::
  "string \<Rightarrow> expense list \<Rightarrow> expense response \<times> expense list" where
  "delete_expense i expenses =
     (case findIndex (\<lambda>e. ident e = i) expenses of
        None \<Rightarrow> (Failure 404 ''Expense not found'', expenses)
      | Some index \<Rightarrow>
          (Success 200 (expenses ! index), take index expenses @ drop (Suc index) expenses))"

text \<open>\<open>POST /api/categories\<close>.\<close>

definition create_category ::
  "string param \<Rightarrow> string list \<Rightarrow> string response \<times> string list" where
  "create_category name categories =
     (if \<not> truthy_string name \<or> trim (the_string name) = []
      then (Failure 400 ''Category name is required'', categories)
      else let categoryName = trim (the_string name)
           in if list_ex (\<lambda>c. toLowerCase c = toLowerCase categoryName) categories
              then (Failure 400 ''Category already exists'', categories)
              else (Success 201 categoryName, categories @ [categoryName]))"

text \<open>
  The stores that the handlers can produce from the empty array, when \<open>uuidv4()\<close> never
  returns an identifier that is in the store.
\<close>

inductive reachable :: "expense list \<Rightarrow> bool" where
  initial: "reachable []"
| created: "reachable expenses \<Longrightarrow> uuid \<notin> ident ` set expenses \<Longrightarrow>
     reachable (snd (create_expense uuid amt cat dat descr expenses))"
| updated: "reachable expenses \<Longrightarrow>
     reachable (snd (update_expense i amt cat dat descr expenses))"
| deleted: "reachable expenses \<Longrightarrow> reachable (snd (delete_expense i expenses))"

subsection \<open>The summary: \<open>GET /api/expenses/summary\<close>\<close>

text \<open>
  The accumulator of the first \<open>reduce\<close> is a plain object \<open>{}\<close>, whose prototype is
  \<open>Object.prototype\<close>. It is modelled by the list of its own properties in creation
  order. A value read from it or stored in it is
  \<^item> \<open>Missing\<close>: \<open>undefined\<close>, the property is neither own nor inherited;
  \<^item> \<open>Number n\<close>;
  \<^item> \<open>Inherited k\<close>: the member \<open>k\<close> of \<open>Object.prototype\<close>, a function (for
    \<open>__proto__\<close> the prototype object itself);
  \<^item> \<open>Text k ns\<close>: the string that \<open>+\<close> builds from the member \<open>k\<close> of
    \<open>Object.prototype\<close> and the numbers \<open>ns\<close> added to it one after the other, that is the
    text of the member followed by the decimal text of each number.
\<close>

datatype jsvalue = Missing | Number jsnumber | Inherited string | Text string "jsnumber list"

type_synonym jsobject = "(string \<times> jsvalue) list"

definition object_prototype_keys :: "string list" where
  "object_prototype_keys =
     [''constructor'', ''__defineGetter__'', ''__defineSetter__'', ''hasOwnProperty'',
      ''__lookupGetter__'', ''__lookupSetter__'', ''isPrototypeOf'', ''propertyIsEnumerable'',
      ''toString'', ''valueOf'', ''__proto__'', ''toLocaleString'']"

text \<open>
  \<open>acc[k]\<close> read: an own property, else a member of the prototype, else
  \<open>undefined\<close>.
\<close>

definition get_property :: "jsobject \<Rightarrow> string \<Rightarrow> jsvalue" where
  "get_property acc k =
     (case map_of acc k of
        Some v \<Rightarrow> v
      | None \<Rightarrow> if k \<in> set object_prototype_keys then Inherited k else Missing)"

text \<open>
  \<open>v || 0\<close>: a number that is \<open>0\<close> or \<open>NaN\<close> and
  \<open>undefined\<close> are falsy.
\<close>

fun or_zero :: "jsvalue \<Rightarrow> jsvalue" where
  "or_zero Missing = Number (Finite 0)"
| "or_zero (Number n) = (if truthy_number n then Number n else Number (Finite 0))"
| "or_zero v = v"

text \<open>
  \<open>v + amount\<close>, where \<open>amount\<close> is a number: addition, or
  concatenation to a string.
\<close>

fun js_plus :: "jsvalue \<Rightarrow> jsnumber \<Rightarrow> jsvalue" where
  "js_plus (Number n) a = Number (js_add n a)"
| "js_plus (Inherited k) a = Text k [a]"
| "js_plus (Text k ns) a = Text k (ns @ [a])"
| "js_plus Missing a = Number NaN"

text \<open>
  \<open>acc[k] = v\<close> for a primitive \<open>v\<close>: an own property keeps its place, a new one is added
  last; the inherited setter \<open>__proto__\<close> ignores a value that is not an object.
\<close>

definition set_property :: "string \<Rightarrow> jsvalue \<Rightarrow> jsobject \<Rightarrow> jsobject" where
  "set_property k v acc =
     (if map_of acc k = None \<and> k = ''__proto__'' then acc else AList.update k v acc)"

definition reducer :: "jsobject \<Rightarrow> expense \<Rightarrow> jsobject" where
  "reducer acc expense =
     set_property (property_key (category expense))
       (js_plus (or_zero (get_property acc (property_key (category expense)))) (amount expense))
       acc"

text \<open>
  \<open>Object.entries\<close> lists the own properties whose key is an array index (a canonical
  decimal numeral below \<open>2^32 - 1\<close>) first, in ascending numeric order, then the other
  keys in creation order.
\<close>

definition is_array_index :: "string \<Rightarrow> bool" where
  "is_array_index k =
     (k \<noteq> [] \<and> list_all is_digit k \<and> (hd k \<noteq> CHR ''0'' \<or> length k = 1)
      \<and> digits_val k < 2 ^ 32 - 1)"

definition object_entries :: "(string \<times> 'v) list \<Rightarrow> (string \<times> 'v) list" where
  "object_entries obj =
     sort_key (\<lambda>p. digits_val (fst p)) (filter (\<lambda>p. is_array_index (fst p)) obj)
       @ filter (\<lambda>p. \<not> is_array_index (fst p)) obj"


text \<open>
  The handler returns \<open>data: summaryArray\<close> and \<open>grandTotal\<close>.
\<close>

definition summarize :: "expense list \<Rightarrow> (string \<times> jsvalue) list \<times> jsnumber" where
  "summarize expenses =
     (let summary = foldl reducer [] expenses;
          summaryArray = object_entries summary;
          grandTotal = foldl (\<lambda>sum expense. js_add sum (amount expense)) (Finite 0) expenses
      in (summaryArray, grandTotal))"

section \<open>The frontend: percentage breakdown\<close>

text \<open>
  \<open>x / y\<close> and \<open>x * y\<close>. Division reports a zero divisor as \<open>Inl DivisionByZero\<close>, so that
  ``the code never divides by zero'' can be stated; JavaScript itself returns an infinity
  or \<open>NaN\<close> there.
\<close>

datatype arith_error = DivisionByZero

fun js_div :: "jsnumber \<Rightarrow> jsnumber \<Rightarrow> arith_error + jsnumber" where
  "js_div x (Finite b) =
     (if b = 0 then Inl DivisionByZero
      else case x of
             Finite a \<Rightarrow> Inr (round_double (a / b))
           | NaN \<Rightarrow> Inr NaN
           | PosInf \<Rightarrow> Inr (if 0 < b then PosInf else NegInf)
           | NegInf \<Rightarrow> Inr (if 0 < b then NegInf else PosInf))"
| "js_div (Finite a) PosInf = Inr (Finite 0)"
| "js_div (Finite a) NegInf = Inr (Finite 0)"
| "js_div _ _ = Inr NaN"

fun js_mul :: "jsnumber \<Rightarrow> jsnumber \<Rightarrow> jsnumber" where
  "js_mul (Finite a) (Finite b) = round_double (a * b)"
| "js_mul NaN _ = NaN"
| "js_mul _ NaN = NaN"
| "js_mul (Finite a) y = (if a = 0 then NaN else if 0 < a then y else js_neg y)"
| "js_mul x (Finite b) = (if b = 0 then NaN else if 0 < b then x else js_neg x)"
| "js_mul PosInf y = y"
| "js_mul NegInf y = js_neg y"

text \<open>
  \<open>x.toFixed(1)\<close>. \<open>Digits neg n\<close> is the decimal text of \<open>n / 10\<close> with one digit after the
  point, behind a minus sign when \<open>neg\<close>; \<open>n\<close> is the integer nearest to \<open>10 * |x|\<close>, the
  larger one on a tie. \<open>Printed x\<close> is the text of \<open>String(x)\<close>, which \<open>toFixed\<close> returns for
  \<open>NaN\<close>, the infinities and magnitudes from \<open>10^21\<close> on.
\<close>

datatype fixed = Digits bool int | Printed jsnumber

fun toFixed1 :: "jsnumber \<Rightarrow> fixed" where
  "toFixed1 (Finite a) =
     (if 10 ^ 21 \<le> \<bar>a\<bar> then Printed (Finite a)
      else Digits (a < 0) \<lfloor>\<bar>a\<bar> * 10 + 1 / 2\<rfloor>)"
| "toFixed1 x = Printed x"

text \<open>
  \<open>grandTotal > 0 ? ((item.total / grandTotal) * 100).toFixed(1) : 0\<close>: a string, or the
  number \<open>0\<close>.
\<close>

datatype percent = Fixed fixed | Zero

definition percentage :: "jsnumber \<Rightarrow> jsnumber \<Rightarrow> arith_error + percent" where
  "percentage item_total grandTotal =
     (if js_positive grandTotal
      then (case js_div item_total grandTotal of
              Inl err \<Rightarrow> Inl err
            | Inr q \<Rightarrow> Inr (Fixed (toFixed1 (js_mul q (Finite 100)))))
      else Inr Zero)"

section \<open>Notions of the specification\<close>


text \<open>``A finite positive number''.\<close>

fun finite_positive :: "jsnumber \<Rightarrow> bool" where
  "finite_positive (Finite a) = (0 < a)"
| "finite_positive _ = False"

text \<open>
  The category of an expense as the summary sees it: the string itself, or the conversion
  to a string of a category that is not a string.
\<close>

definition category_key :: "expense \<Rightarrow> string" where
  "category_key e = property_key (category e)"

text \<open>Whether the category of an expense is a string.\<close>

fun string_category :: "expense \<Rightarrow> bool" where
  "string_category e = (case category e of JString c \<Rightarrow> True | JOther t k \<Rightarrow> False)"


text \<open>An expense record as the store holds it, for the examples below.\<close>

definition expense_of :: "string \<Rightarrow> jsnumber \<Rightarrow> string \<Rightarrow> expense" where
  "expense_of i a c =
     \<lparr>ident = i, amount = a, category = JString c, date = ''2024-01-01'',
      description = Val []\<rparr>"


text \<open>A store whose records have descriptions.\<close>

definition noted_store :: "expense list" where
  "noted_store =
     [expense_of ''id-1'' (Finite 50) ''Food''\<lparr>description := Val ''groceries''\<rparr>,
      expense_of ''id-2'' (Finite 30) ''Transport''\<lparr>description := Val ''bus pass''\<rparr>]"

definition sample_store :: "expense list" where
  "sample_store =
     [expense_of ''id-1'' (Finite 50) ''Food'',
      expense_of ''id-2'' (Finite 30) ''food'',
      expense_of ''id-3'' (Finite 20) ''Transport'']"

section \<open>Auxiliary facts\<close>

subsection \<open>Lists and the store\<close>

lemma findIndex_None: "findIndex P xs = None \<longleftrightarrow> (\<forall>x \<in> set xs. \<not> P x)"
  by (induction xs) auto

lemma findIndex_Some:
  "findIndex P xs = Some k \<Longrightarrow> k < length xs \<and> P (xs ! k) \<and> (\<forall>j < k. \<not> P (xs ! j))"
proof (induction xs arbitrary: k)
  case Nil
  then show ?case by simp
next
  case (Cons x xs)
  show ?case
  proof (cases "P x")
    case True
    with Cons.prems show ?thesis by simp
  next
    case False
    with Cons.prems obtain k' where k': "findIndex P xs = Some k'" "k = Suc k'"
      by auto
    from Cons.IH[OF k'(1)] False k'(2) show ?thesis
      by (auto simp: less_Suc_eq_0_disj)
  qed
qed

lemma subseq_take_drop: "subseq (take k xs @ drop (Suc k) xs) xs"
proof (induction xs arbitrary: k)
  case Nil
  then show ?case by simp
next
  case (Cons x xs)
  then show ?case by (cases k) auto
qed

lemma distinct_remove_nth:
  assumes "distinct (map f xs)" "k < length xs"
  shows "f (xs ! k) \<notin> f ` set (take k xs @ drop (Suc k) xs)"
proof -
  have "xs = take k xs @ (xs ! k) # drop (Suc k) xs"
    using assms(2) by (simp add: id_take_nth_drop)
  then have "distinct (map f (take k xs @ (xs ! k) # drop (Suc k) xs))"
    using assms(1) by simp
  then show ?thesis by auto
qed

text \<open>The filter of the listing on a store of string categories, and on any other store.\<close>

lemma filter_expenses_strings:
  "\<forall>e \<in> set expenses. string_category e \<Longrightarrow>
     filter_expenses (JString f) expenses
       = Inr (filter (\<lambda>e. toLowerCase (category_key e) = toLowerCase f) expenses)"
  by (induction expenses) (auto simp: category_key_def split: json_value.splits)

lemma filter_expenses_throws:
  "\<exists>e \<in> set expenses. \<not> string_category e \<Longrightarrow>
     filter_expenses (JString f) expenses = Inl ''expense.category.toLowerCase is not a function''"
  by (induction expenses) (auto split: json_value.splits sum.splits)

text \<open>The identifiers of the store are distinct in every reachable store.\<close>

lemma create_expense_ids:
  "snd (create_expense uuid amt cat dat descr expenses) = expenses
   \<or> map ident (snd (create_expense uuid amt cat dat descr expenses)) = map ident expenses @ [uuid]"
  by (simp add: create_expense_def Let_def)

lemma update_expense_ids:
  "map ident (snd (update_expense i amt cat dat descr expenses)) = map ident expenses"
proof (cases "findIndex (\<lambda>e. ident e = i) expenses")
  case None
  then show ?thesis by (simp add: update_expense_def)
next
  case (Some k)
  from findIndex_Some[OF Some] have "k < length expenses" "ident (expenses ! k) = i"
    by auto
  with Some show ?thesis
    by (simp add: update_expense_def Let_def map_update list_update_same_conv)
qed

lemma delete_expense_distinct:
  assumes "distinct (map ident expenses)"
  shows "distinct (map ident (snd (delete_expense i expenses)))"
proof (cases "findIndex (\<lambda>e. ident e = i) expenses")
  case None
  with assms show ?thesis by (simp add: delete_expense_def)
next
  case (Some k)
  from findIndex_Some[OF Some] have "k < length expenses"
    by auto
  then have "expenses = take k expenses @ (expenses ! k) # drop (Suc k) expenses"
    by (simp add: id_take_nth_drop)
  then have "distinct (map ident (take k expenses @ (expenses ! k) # drop (Suc k) expenses))"
    using assms by simp
  then have "distinct (map ident (take k expenses @ drop (Suc k) expenses))"
    by auto
  with Some show ?thesis by (simp add: delete_expense_def)
qed

lemma reachable_distinct: "reachable expenses \<Longrightarrow> distinct (map ident expenses)"
proof (induction rule: reachable.induct)
  case initial
  then show ?case by simp
next
  case (created expenses uuid amt cat dat descr)
  then show ?case
    using create_expense_ids[of uuid amt cat dat descr expenses] by auto
next
  case (updated expenses i amt cat dat descr)
  then show ?case by (simp add: update_expense_ids)
next
  case (deleted expenses i)
  then show ?case by (simp add: delete_expense_distinct)
qed

subsection \<open>Rounding of whole numbers\<close>

lemma floor_log2_le:
  assumes "0 < x"
  shows "2 powi (floor_log2 x) \<le> x"
proof -
  obtain p q where pq: "quotient_of x = (p, q)"
    by (cases "quotient_of x")
  then have q: "0 < q" and x: "x = of_int p / of_int q"
    using quotient_of_denom_pos quotient_of_div by blast+
  with assms have p: "0 < p"
    by (simp add: zero_less_divide_iff)
  let ?d = "bitlen p - bitlen q"
  show ?thesis
  proof (cases "(2::rat) powi ?d \<le> x")
    case True
    then show ?thesis by (simp add: floor_log2_def pq)
  next
    case False
    have bp: "1 \<le> bitlen p" and bq: "1 \<le> bitlen q"
      using p q bitlen_eq_zero_iff[of p] bitlen_eq_zero_iff[of q] bitlen_nonneg[of p] bitlen_nonneg[of q]
      by linarith+
    have lo: "(2::rat) powi (bitlen p - 1) \<le> of_int p"
    proof -
      have "(2::int) ^ nat (bitlen p - 1) \<le> p"
        using bitlen_bounds[OF p] by simp
      then have "of_int ((2::int) ^ nat (bitlen p - 1)) \<le> (of_int p :: rat)"
        by (simp only: of_int_le_iff)
      then show ?thesis
        using bp by (simp add: power_int_def)
    qed
    have hi: "(of_int q :: rat) \<le> 2 powi (bitlen q)"
    proof -
      have "q < (2::int) ^ nat (bitlen q)"
        using bitlen_bounds[OF q] by simp
      then have "(of_int q :: rat) < of_int ((2::int) ^ nat (bitlen q))"
        by (simp only: of_int_less_iff)
      then show ?thesis
        using bq by (simp add: power_int_def)
    qed
    have "(2::rat) powi (?d - 1) * of_int q \<le> 2 powi (?d - 1) * 2 powi (bitlen q)"
      using hi by (intro mult_left_mono) auto
    also have "\<dots> = 2 powi (bitlen p - 1)"
      by (simp add: power_int_add[symmetric])
    also have "\<dots> \<le> of_int p" by (rule lo)
    finally have "(2::rat) powi (?d - 1) \<le> of_int p / of_int q"
      using q by (simp add: pos_le_divide_eq)
    then have "(2::rat) powi (?d - 1) \<le> x"
      by (simp only: x)
    moreover have "floor_log2 x = ?d - 1"
      using False by (simp add: floor_log2_def pq)
    ultimately show ?thesis by simp
  qed
qed

lemma round_half_even_int: "round_half_even (of_int n) = n"
  by (simp add: round_half_even_def)


text \<open>The exponent of a positive rational is bounded from above as well.\<close>

lemma floor_log2_less:
  assumes "0 < x"
  shows "x < 2 powi (floor_log2 x + 1)"
proof -
  obtain p q where pq: "quotient_of x = (p, q)"
    by (cases "quotient_of x")
  then have q: "0 < q" and x: "x = of_int p / of_int q"
    using quotient_of_denom_pos quotient_of_div by blast+
  with assms have p: "0 < p"
    by (simp add: zero_less_divide_iff)
  let ?d = "bitlen p - bitlen q"
  show ?thesis
  proof (cases "(2::rat) powi ?d \<le> x")
    case False
    then have "floor_log2 x = ?d - 1"
      by (simp add: floor_log2_def pq)
    with False show ?thesis by simp
  next
    case True
    have bp: "1 \<le> bitlen p" and bq: "1 \<le> bitlen q"
      using p q bitlen_eq_zero_iff[of p] bitlen_eq_zero_iff[of q] bitlen_nonneg[of p] bitlen_nonneg[of q]
      by linarith+
    have hi: "(of_int p :: rat) < 2 powi (bitlen p)"
    proof -
      have "p < (2::int) ^ nat (bitlen p)"
        using bitlen_bounds[OF p] by simp
      then have "(of_int p :: rat) < of_int ((2::int) ^ nat (bitlen p))"
        by (simp only: of_int_less_iff)
      then show ?thesis
        using bp by (simp add: power_int_def)
    qed
    have lo: "(2::rat) powi (bitlen q - 1) \<le> of_int q"
    proof -
      have "(2::int) ^ nat (bitlen q - 1) \<le> q"
        using bitlen_bounds[OF q] by simp
      then have "of_int ((2::int) ^ nat (bitlen q - 1)) \<le> (of_int q :: rat)"
        by (simp only: of_int_le_iff)
      then show ?thesis
        using bq by (simp add: power_int_def)
    qed
    have "(of_int p :: rat) < 2 powi (bitlen p)" by (rule hi)
    also have "\<dots> = 2 powi (?d + 1) * 2 powi (bitlen q - 1)"
      by (simp add: power_int_add[symmetric])
    also have "\<dots> \<le> 2 powi (?d + 1) * of_int q"
      using lo by (intro mult_left_mono) auto
    finally have "of_int p / of_int q < (2::rat) powi (?d + 1)"
      using q by (simp add: pos_divide_less_eq)
    then have "x < (2::rat) powi (?d + 1)"
      by (simp only: x)
    moreover have "floor_log2 x = ?d"
      using True by (simp add: floor_log2_def pq)
    ultimately show ?thesis by simp
  qed
qed

lemma round_half_even_ge: "of_int N \<le> x \<Longrightarrow> N \<le> round_half_even x"
proof -
  assume "of_int N \<le> x"
  then have "N \<le> \<lfloor>x\<rfloor>" by (simp add: le_floor_iff)
  then show ?thesis by (simp add: round_half_even_def Let_def)
qed

lemma round_half_even_le: "x \<le> of_int N \<Longrightarrow> round_half_even x \<le> N"
proof (cases "x = of_int N")
  case True
  then show ?thesis by (simp add: round_half_even_int)
next
  case False
  assume "x \<le> of_int N"
  with False have "x < of_int N" by simp
  then have "\<lfloor>x\<rfloor> < N" by (simp add: floor_less_iff)
  then show ?thesis by (simp add: round_half_even_def Let_def)
qed

lemma rat_of_int_pow2_le: "2 ^ n \<le> m \<Longrightarrow> (2::rat) ^ n \<le> of_int m"
proof -
  assume "2 ^ n \<le> m"
  then have "(of_int (2 ^ n) :: rat) \<le> of_int m"
    by (simp only: of_int_le_iff)
  then show ?thesis by simp
qed

lemma rat_of_int_le_pow2: "m \<le> 2 ^ n \<Longrightarrow> of_int m \<le> (2::rat) ^ n"
proof -
  assume "m \<le> 2 ^ n"
  then have "(of_int m :: rat) \<le> of_int (2 ^ n)"
    by (simp only: of_int_le_iff)
  then show ?thesis by simp
qed

lemma rat_of_int_less_pow2: "m < 2 ^ n \<Longrightarrow> of_int m < (2::rat) ^ n"
proof -
  assume "m < 2 ^ n"
  then have "(of_int m :: rat) < of_int (2 ^ n)"
    by (simp only: of_int_less_iff)
  then show ?thesis by simp
qed

lemma pow2_sum: "(2::rat) ^ a * 2 ^ b = 2 ^ c" if "a + b = c"
  using that by (simp only: power_add[symmetric])

text \<open>
  The infinities are exactly the results whose rounded magnitude reaches
  \<open>2^1024\<close>.
\<close>

lemma round_double_overflow:
  assumes "x \<noteq> 0"
  defines "e \<equiv> max (floor_log2 \<bar>x\<bar> - 52) (- 1074)"
  defines "m \<equiv> round_half_even (\<bar>x\<bar> / 2 powi e)"
  shows "round_double x \<in> {PosInf, NegInf} \<longleftrightarrow> 2 ^ 1024 \<le> (of_int m :: rat) * 2 powi e"
proof -
  let ?a = "\<bar>x\<bar>"
  have a: "0 < ?a" using assms(1) by simp
  have lo: "(2::rat) powi floor_log2 ?a \<le> ?a" and hi: "?a < 2 powi (floor_log2 ?a + 1)"
    using floor_log2_le[OF a] floor_log2_less[OF a] by auto
  have e_ge: "floor_log2 ?a - 52 \<le> e"
    by (simp add: e_def)
  have pe: "(0::rat) < 2 powi e" by simp
  have m_le: "m \<le> 2 ^ 53"
  proof -
    have "?a < 2 powi (e + 53)"
    proof -
      have "(2::rat) powi (floor_log2 ?a + 1) \<le> 2 powi (e + 53)"
        using e_ge by (intro power_int_increasing) auto
      with hi show ?thesis by simp
    qed
    also have "\<dots> = 2 ^ 53 * 2 powi e"
      by (simp add: power_int_add)
    finally have "?a / 2 powi e \<le> of_int (2 ^ 53)"
      using pe by (simp add: pos_divide_le_eq)
    then show ?thesis
      unfolding m_def by (rule round_half_even_le)
  qed
  have m_ge: "2 ^ 52 \<le> m" if "e = floor_log2 ?a - 52"
  proof -
    have "(2::rat) ^ 52 * 2 powi e = 2 powi floor_log2 ?a"
      using that by (simp add: power_int_add[symmetric] flip: power_int_numeral)
    also have "\<dots> \<le> ?a" by (rule lo)
    finally have "of_int (2 ^ 52) \<le> ?a / 2 powi e"
      using pe by (simp add: pos_le_divide_eq)
    then show ?thesis
      unfolding m_def by (rule round_half_even_ge)
  qed
  have m0: "0 \<le> m"
    unfolding m_def by (rule round_half_even_ge) simp
  have p1: "(2::rat) ^ 52 * 2 powi 972 = 2 ^ 1024"
    and p2: "(2::rat) ^ 53 * 2 powi 971 = 2 ^ 1024"
    and p3: "(2::rat) ^ 53 * 2 powi 970 = 2 ^ 1023"
    unfolding power_int_numeral by (rule pow2_sum, simp)+
  have inf: "round_double x \<in> {PosInf, NegInf} \<longleftrightarrow> 971 < e \<or> (e = 971 \<and> 2 ^ 53 \<le> m)"
    using assms(1) by (simp add: round_double_def Let_def e_def m_def del: power_numeral)
  show ?thesis
  proof (cases "971 < e \<or> (e = 971 \<and> 2 ^ 53 \<le> m)")
    case True
    have "(2::rat) ^ 1024 \<le> of_int m * 2 powi e"
    proof (cases "971 < e")
      case True
      then have ee: "e = floor_log2 ?a - 52" by (simp add: e_def)
      have "(2::rat) ^ 1024 = 2 ^ 52 * 2 powi 972"
        by (simp only: p1)
      also have "\<dots> \<le> 2 ^ 52 * 2 powi e"
        using True by (intro mult_left_mono power_int_increasing) auto
      also have "\<dots> \<le> of_int m * 2 powi e"
        using rat_of_int_pow2_le[OF m_ge[OF ee]] by (intro mult_right_mono) auto
      finally show ?thesis .
    next
      case False
      with True have e971: "e = 971" and mm: "2 ^ 53 \<le> m" by auto
      have "(2::rat) ^ 1024 = 2 ^ 53 * 2 powi 971"
        by (simp only: p2)
      also have "\<dots> \<le> of_int m * 2 powi 971"
        using rat_of_int_pow2_le[OF mm] by (intro mult_right_mono) auto
      finally show ?thesis by (simp only: e971)
    qed
    with True inf show ?thesis by simp
  next
    case False
    have "(of_int m :: rat) * 2 powi e < 2 ^ 1024"
    proof (cases "e = 971")
      case True
      with False have "m < 2 ^ 53" by simp
      then have "(of_int m :: rat) < 2 ^ 53"
        by (rule rat_of_int_less_pow2)
      then have "(of_int m :: rat) * 2 powi 971 < 2 ^ 53 * 2 powi 971"
        by (intro mult_strict_right_mono) auto
      also have "\<dots> = 2 ^ 1024"
        by (rule p2)
      finally show ?thesis by (simp only: True)
    next
      case ne: False
      with False have "e \<le> 970" by simp
      have "(of_int m :: rat) * 2 powi e \<le> 2 ^ 53 * 2 powi e"
        using rat_of_int_le_pow2[OF m_le] by (intro mult_right_mono) auto
      also have "\<dots> \<le> 2 ^ 53 * 2 powi 970"
        using \<open>e \<le> 970\<close> by (intro mult_left_mono power_int_increasing) auto
      also have "\<dots> = 2 ^ 1023"
        by (rule p3)
      also have "\<dots> < (2::rat) ^ 1024"
        by (rule power_strict_increasing) simp_all
      finally show ?thesis .
    qed
    with False inf show ?thesis by simp
  qed
qed

subsection \<open>Sums\<close>












subsection \<open>The accumulator of the summary\<close>




















subsection \<open>The percentage\<close>

lemma nearest_tenth:
  fixes b :: rat
  shows "\<bar>of_int \<lfloor>b * 10 + 1 / 2\<rfloor> / 10 - b\<bar> \<le> 1 / 20"
proof -
  define n where "n = \<lfloor>b * 10 + 1 / 2\<rfloor>"
  have "of_int n \<le> b * 10 + 1 / 2" "b * 10 + 1 / 2 < of_int n + 1"
    unfolding n_def by linarith+
  then have "of_int n / 10 - b \<le> 1 / 20" "- (of_int n / 10 - b) \<le> 1 / 20"
    by linarith+
  then show ?thesis
    unfolding n_def[symmetric] by (rule abs_leI)
qed

lemma toFixed1_nearest:
  assumes "\<bar>a\<bar> < 10 ^ 21"
  shows "\<exists>n. toFixed1 (Finite a) = Digits (a < 0) n \<and> 0 \<le> n \<and> \<bar>of_int n / 10 - \<bar>a\<bar>\<bar> \<le> 1 / 20"
proof -
  have "toFixed1 (Finite a) = Digits (a < 0) \<lfloor>\<bar>a\<bar> * 10 + 1 / 2\<rfloor>"
    using assms by (simp del: power_numeral)
  moreover have "0 \<le> \<lfloor>\<bar>a\<bar> * 10 + 1 / 2\<rfloor>"
    by simp
  ultimately show ?thesis
    using nearest_tenth[of "\<bar>a\<bar>"] by blast
qed

lemma js_div_positive: "js_positive g \<Longrightarrow> \<exists>q. js_div t g = Inr q"
  by (cases g; cases t) auto

subsection \<open>The sample store\<close>

lemma sample_ids: "map ident sample_store = [''id-1'', ''id-2'', ''id-3'']"
  by (simp add: sample_store_def expense_of_def)

section \<open>Properties of the handlers\<close>

text \<open>
  Claim C3, as the code has it. Listing with no filter, with an empty filter or with the
  sentinel \<open>All\<close> returns every expense in stored order, and listing the empty store
  returns the empty sequence. For any other filter string: when every stored category is
  a string, the listing succeeds with exactly the expenses whose category equals the
  filter after \<open>toLowerCase\<close> on both sides, in stored order, a subsequence of the store;
  when some stored category is not a string, the listing fails with status 500.
\<close>

theorem list_expenses_filter:
  "(cat \<in> {Undefined, Null, Val (JString []), Val (JString ''All'')} \<longrightarrow>
      list_expenses cat expenses = Success 200 expenses)
   \<and> (\<forall>f. cat = Val (JString f) \<and> f \<noteq> [] \<and> f \<noteq> ''All''
           \<and> (\<forall>e \<in> set expenses. string_category e) \<longrightarrow>
        list_expenses cat expenses =
          Success 200 (filter (\<lambda>e. toLowerCase (category_key e) = toLowerCase f) expenses))
   \<and> (\<forall>f. cat = Val (JString f) \<and> f \<noteq> [] \<and> f \<noteq> ''All''
           \<and> (\<exists>e \<in> set expenses. \<not> string_category e) \<longrightarrow>
        list_expenses cat expenses =
          Failure 500 ''expense.category.toLowerCase is not a function'')
   \<and> ((cat \<in> {Undefined, Null} \<or> (\<exists>f. cat = Val (JString f)))
         \<and> (\<forall>e \<in> set expenses. string_category e) \<longrightarrow>
        (\<exists>xs. list_expenses cat expenses = Success 200 xs \<and> subseq xs expenses))
   \<and> list_expenses cat [] = Success 200 []"
proof (intro conjI impI allI)
  show "list_expenses cat expenses = Success 200 expenses"
    if "cat \<in> {Undefined, Null, Val (JString []), Val (JString ''All'')}"
    using that by (auto simp: list_expenses_def)
  show "list_expenses cat expenses =
          Success 200 (filter (\<lambda>e. toLowerCase (category_key e) = toLowerCase f) expenses)"
    if "cat = Val (JString f) \<and> f \<noteq> [] \<and> f \<noteq> ''All'' \<and> (\<forall>e \<in> set expenses. string_category e)"
    for f
    using that filter_expenses_strings[of expenses f] by (simp add: list_expenses_def)
  show "list_expenses cat expenses = Failure 500 ''expense.category.toLowerCase is not a function''"
    if "cat = Val (JString f) \<and> f \<noteq> [] \<and> f \<noteq> ''All'' \<and> (\<exists>e \<in> set expenses. \<not> string_category e)"
    for f
    using that filter_expenses_throws[of expenses f] by (simp add: list_expenses_def)
  show "\<exists>xs. list_expenses cat expenses = Success 200 xs \<and> subseq xs expenses"
    if "(cat \<in> {Undefined, Null} \<or> (\<exists>f. cat = Val (JString f)))
         \<and> (\<forall>e \<in> set expenses. string_category e)"
  proof -
    from that have s: "\<forall>e \<in> set expenses. string_category e" by simp
    from that consider "cat \<in> {Undefined, Null}" | f where "cat = Val (JString f)"
      by blast
    then show ?thesis
    proof cases
      case 1
      then show ?thesis by (auto simp: list_expenses_def)
    next
      case 2
      then show ?thesis
        using filter_expenses_strings[OF s, of f] by (auto simp: list_expenses_def)
    qed
  qed
  show "list_expenses cat [] = Success 200 []"
    by (simp add: list_expenses_def)
qed

text \<open>
  The filter \<open>FOOD\<close> on the sample store, whose categories are strings, selects \<open>Food\<close>
  and \<open>food\<close>; \<open>All\<close> selects everything; and the same filter fails on a store that holds
  the category \<open>123\<close>.
\<close>

theorem list_expenses_filter_witness:
  "list_all string_category sample_store
   \<and> list_expenses (Val (JString ''FOOD'')) sample_store
       = Success 200 [expense_of ''id-1'' (Finite 50) ''Food'', expense_of ''id-2'' (Finite 30) ''food'']
   \<and> list_expenses (Val (JString ''All'')) sample_store = Success 200 sample_store
   \<and> list_ex (\<lambda>e. \<not> string_category e)
        [expense_of ''id-1'' (Finite 50) ''Food''\<lparr>category := JOther True ''123''\<rparr>]
   \<and> list_expenses (Val (JString ''FOOD''))
        [expense_of ''id-1'' (Finite 50) ''Food''\<lparr>category := JOther True ''123''\<rparr>]
       = Failure 500 ''expense.category.toLowerCase is not a function''"
proof -
  let ?bad = "[expense_of ''id-1'' (Finite 50) ''Food''\<lparr>category := JOther True ''123''\<rparr>]"
  have h: "\<forall>e \<in> set sample_store. string_category e"
    by (simp add: sample_store_def expense_of_def)
  have b: "\<exists>e \<in> set ?bad. \<not> string_category e"
    by (simp add: expense_of_def)
  have "list_expenses (Val (JString ''FOOD'')) sample_store
      = Success 200 (filter (\<lambda>e. toLowerCase (category_key e) = toLowerCase ''FOOD'') sample_store)"
    using h list_expenses_filter[where cat = "Val (JString ''FOOD'')" and expenses = sample_store]
    by simp
  moreover have "filter (\<lambda>e. toLowerCase (category_key e) = toLowerCase ''FOOD'') sample_store
      = [expense_of ''id-1'' (Finite 50) ''Food'', expense_of ''id-2'' (Finite 30) ''food'']"
    by code_simp
  moreover have "list_expenses (Val (JString ''All'')) sample_store = Success 200 sample_store"
    using list_expenses_filter[where cat = "Val (JString ''All'')" and expenses = sample_store]
    by simp
  moreover have "list_expenses (Val (JString ''FOOD'')) ?bad
       = Failure 500 ''expense.category.toLowerCase is not a function''"
    using b list_expenses_filter[where cat = "Val (JString ''FOOD'')" and expenses = ?bad]
    by simp
  ultimately show ?thesis
    using h b by (simp add: list_all_iff list_ex_iff)
qed

text \<open>
  As the specification states it, the property fails: a create request with the category
  \<open>123\<close>, a number, is accepted and stored, and every listing with a filter then fails
  with status 500.
\<close>

theorem list_expenses_error_counterexample:
  "create_expense ''id-1'' (Val (Num (Finite 5))) (Val (JOther True ''123'')) (Val ''2024-01-01'')
       Undefined []
     = (Success 201 (expense_of ''id-1'' (Finite 5) ''Food''\<lparr>category := JOther True ''123''\<rparr>),
        [expense_of ''id-1'' (Finite 5) ''Food''\<lparr>category := JOther True ''123''\<rparr>])
   \<and> list_expenses (Val (JString ''Food''))
        [expense_of ''id-1'' (Finite 5) ''Food''\<lparr>category := JOther True ''123''\<rparr>]
     = Failure 500 ''expense.category.toLowerCase is not a function''"
  by (simp add: create_expense_def list_expenses_def expense_of_def Let_def)

text \<open>
  Claim C5. An update for an identifier that no expense has fails with status 404 and
  changes nothing. Otherwise the first expense with that identifier is replaced in place
  by a record with the same identifier in which every field that was not supplied keeps
  its value; with no field supplied the record and the store are unchanged. The
  identifiers of the store, position by position, are never changed.
\<close>

theorem update_expense_frame:
  "(i \<notin> ident ` set expenses \<longrightarrow>
      update_expense i amt cat dat descr expenses = (Failure 404 ''Expense not found'', expenses))
   \<and> (i \<in> ident ` set expenses \<longrightarrow>
        (\<exists>k e. k < length expenses \<and> ident (expenses ! k) = i
           \<and> (\<forall>j < k. ident (expenses ! j) \<noteq> i)
           \<and> update_expense i amt cat dat descr expenses = (Success 200 e, expenses[k := e])
           \<and> ident e = i
           \<and> (amt = Undefined \<longrightarrow> amount e = amount (expenses ! k))
           \<and> (cat = Undefined \<longrightarrow> category e = category (expenses ! k))
           \<and> (dat = Undefined \<longrightarrow> date e = date (expenses ! k))
           \<and> (descr = Undefined \<longrightarrow> description e = description (expenses ! k))
           \<and> (amt = Undefined \<and> cat = Undefined \<and> dat = Undefined \<and> descr = Undefined
                \<longrightarrow> e = expenses ! k \<and> expenses[k := e] = expenses)))
   \<and> map ident (snd (update_expense i amt cat dat descr expenses)) = map ident expenses"
proof (cases "findIndex (\<lambda>e. ident e = i) expenses")
  case None
  then have "i \<notin> ident ` set expenses"
    by (auto simp: findIndex_None)
  with None show ?thesis
    by (simp add: update_expense_def)
next
  case (Some k)
  from findIndex_Some[OF Some]
  have k: "k < length expenses" "ident (expenses ! k) = i" "\<forall>j < k. ident (expenses ! j) \<noteq> i"
    by auto
  then have mem: "i \<in> ident ` set expenses"
    by (metis imageI nth_mem)
  show ?thesis
    using Some k mem
    by (auto simp: update_expense_def Let_def map_update list_update_same_conv intro!: exI[of _ k])
qed

text \<open>
  On the sample store: an update with no fields changes nothing, and an unknown identifier
  is reported.
\<close>

theorem update_expense_frame_witness:
  "''id-2'' \<in> ident ` set sample_store
   \<and> snd (update_expense ''id-2'' Undefined Undefined Undefined Undefined sample_store) = sample_store
   \<and> ''id-9'' \<notin> ident ` set sample_store
   \<and> update_expense ''id-9'' Undefined (Val (JString ''Food'')) Undefined Undefined sample_store
       = (Failure 404 ''Expense not found'', sample_store)"
proof -
  have h1: "''id-2'' \<in> ident ` set sample_store" and h2: "''id-9'' \<notin> ident ` set sample_store"
    using sample_ids by (simp_all flip: set_map)
  from h1 update_expense_frame[where i = "''id-2''" and expenses = sample_store and amt = Undefined
      and cat = Undefined and dat = Undefined and descr = Undefined]
  have "snd (update_expense ''id-2'' Undefined Undefined Undefined Undefined sample_store) = sample_store"
    by auto
  moreover from h2 update_expense_frame[where i = "''id-9''" and expenses = sample_store and amt = Undefined
      and cat = "Val (JString ''Food'')" and dat = Undefined and descr = Undefined]
  have "update_expense ''id-9'' Undefined (Val (JString ''Food'')) Undefined Undefined sample_store
       = (Failure 404 ''Expense not found'', sample_store)"
    by blast
  ultimately show ?thesis using h1 h2 by blast
qed

text \<open>
  Claim C10. In an update of the expense found at position \<open>k\<close>, the empty string for
  \<open>category\<close> or for \<open>date\<close> has the effect of not supplying the field: the stored and
  returned record keeps the category and the date it had. The empty string for
  \<open>description\<close> replaces the stored description by the empty string, whatever it was, and
  the empty string for \<open>amount\<close> replaces the stored amount by \<open>NaN\<close>. In each case the
  handler returns the record that is now at position \<open>k\<close>, and no other position changes.
\<close>

theorem update_expense_empty_string:
  "update_expense i amt (Val (JString [])) dat descr expenses
     = update_expense i amt Undefined dat descr expenses
   \<and> update_expense i amt cat (Val []) descr expenses
     = update_expense i amt cat Undefined descr expenses
   \<and> (findIndex (\<lambda>e. ident e = i) expenses = Some k \<longrightarrow>
        k < length expenses
        \<and> category (snd (update_expense i amt (Val (JString [])) dat descr expenses) ! k)
            = category (expenses ! k)
        \<and> date (snd (update_expense i amt cat (Val []) descr expenses) ! k) = date (expenses ! k)
        \<and> description (snd (update_expense i amt cat dat (Val []) expenses) ! k) = Val []
        \<and> amount (snd (update_expense i (Val (Str [])) cat dat descr expenses) ! k) = NaN
        \<and> update_expense i amt cat dat descr expenses
            = (Success 200 (snd (update_expense i amt cat dat descr expenses) ! k),
               expenses[k := snd (update_expense i amt cat dat descr expenses) ! k]))"
proof (intro conjI impI)
  show "update_expense i amt (Val (JString [])) dat descr expenses
     = update_expense i amt Undefined dat descr expenses"
    by (simp add: update_expense_def split: option.splits)
  show "update_expense i amt cat (Val []) descr expenses
     = update_expense i amt cat Undefined descr expenses"
    by (simp add: update_expense_def split: option.splits)
next
  assume found: "findIndex (\<lambda>e. ident e = i) expenses = Some k"
  then show k: "k < length expenses"
    using findIndex_Some by fastforce
  show "category (snd (update_expense i amt (Val (JString [])) dat descr expenses) ! k)
      = category (expenses ! k)"
    using found k by (simp add: update_expense_def Let_def)
  show "date (snd (update_expense i amt cat (Val []) descr expenses) ! k) = date (expenses ! k)"
    using found k by (simp add: update_expense_def Let_def)
  show "description (snd (update_expense i amt cat dat (Val []) expenses) ! k) = Val []"
    using found k by (simp add: update_expense_def Let_def)
  show "amount (snd (update_expense i (Val (Str [])) cat dat descr expenses) ! k) = NaN"
    using found k by (simp add: update_expense_def Let_def parseFloat_string_def)
  show "update_expense i amt cat dat descr expenses
      = (Success 200 (snd (update_expense i amt cat dat descr expenses) ! k),
         expenses[k := snd (update_expense i amt cat dat descr expenses) ! k])"
    using found k by (simp add: update_expense_def Let_def)
qed

text \<open>
  On the store with descriptions, the record \<open>id-2\<close> is at position \<open>1\<close> with the category
  \<open>Transport\<close>, the date \<open>2024-01-01\<close>, the description \<open>bus pass\<close> and the amount \<open>30\<close>.
  An update with empty strings keeps the first two and replaces the last two.
\<close>

theorem update_expense_empty_string_witness:
  "findIndex (\<lambda>e. ident e = ''id-2'') noted_store = Some 1
   \<and> category (noted_store ! 1) = JString ''Transport''
   \<and> description (noted_store ! 1) = Val ''bus pass''
   \<and> amount (noted_store ! 1) = Finite 30
   \<and> category (snd (update_expense ''id-2'' Undefined (Val (JString [])) Undefined Undefined noted_store) ! 1)
       = JString ''Transport''
   \<and> date (snd (update_expense ''id-2'' Undefined Undefined (Val []) Undefined noted_store) ! 1)
       = ''2024-01-01''
   \<and> description (snd (update_expense ''id-2'' Undefined Undefined Undefined (Val []) noted_store) ! 1)
       = Val []
   \<and> amount (snd (update_expense ''id-2'' (Val (Str [])) Undefined Undefined Undefined noted_store) ! 1)
       = NaN"
proof -
  have h: "findIndex (\<lambda>e. ident e = ''id-2'') noted_store = Some 1"
    by (simp add: noted_store_def expense_of_def)
  have old: "category (noted_store ! 1) = JString ''Transport''"
    "date (noted_store ! 1) = ''2024-01-01''"
    "description (noted_store ! 1) = Val ''bus pass''"
    "amount (noted_store ! 1) = Finite 30"
    by (simp_all add: noted_store_def expense_of_def)
  from h update_expense_empty_string[where i = "''id-2''" and expenses = noted_store and k = 1
      and amt = Undefined and cat = Undefined and dat = Undefined and descr = Undefined]
  have "category (snd (update_expense ''id-2'' Undefined (Val (JString [])) Undefined Undefined noted_store) ! 1)
       = category (noted_store ! 1)"
    and "date (snd (update_expense ''id-2'' Undefined Undefined (Val []) Undefined noted_store) ! 1)
       = date (noted_store ! 1)"
    and "description (snd (update_expense ''id-2'' Undefined Undefined Undefined (Val []) noted_store) ! 1)
       = Val []"
    and "amount (snd (update_expense ''id-2'' (Val (Str [])) Undefined Undefined Undefined noted_store) ! 1)
       = NaN"
    by blast+
  with h old show ?thesis by simp
qed

text \<open>
  Claim C6. Deleting an identifier that no expense has fails with status 404. Otherwise
  the first expense with that identifier is removed and returned, and the remaining
  records keep their relative order. When the identifiers of the store are distinct, as
  they are in every reachable store, they stay distinct, the listing after the deletion
  does not contain the identifier and deleting it a second time fails with status 404.
\<close>

theorem delete_expense_removes:
  "(i \<notin> ident ` set expenses \<longrightarrow>
      delete_expense i expenses = (Failure 404 ''Expense not found'', expenses))
   \<and> (i \<in> ident ` set expenses \<longrightarrow>
        (\<exists>k. k < length expenses \<and> ident (expenses ! k) = i
           \<and> (\<forall>j < k. ident (expenses ! j) \<noteq> i)
           \<and> delete_expense i expenses =
               (Success 200 (expenses ! k), take k expenses @ drop (Suc k) expenses)))
   \<and> subseq (snd (delete_expense i expenses)) expenses
   \<and> (distinct (map ident expenses) \<longrightarrow>
        distinct (map ident (snd (delete_expense i expenses)))
        \<and> (\<exists>xs. list_expenses Undefined (snd (delete_expense i expenses)) = Success 200 xs
              \<and> i \<notin> ident ` set xs)
        \<and> fst (delete_expense i (snd (delete_expense i expenses)))
            = Failure 404 ''Expense not found'')"
proof (cases "findIndex (\<lambda>e. ident e = i) expenses")
  case None
  then have "i \<notin> ident ` set expenses"
    by (auto simp: findIndex_None)
  with None show ?thesis
    by (auto simp: delete_expense_def list_expenses_def)
next
  case (Some k)
  let ?rest = "take k expenses @ drop (Suc k) expenses"
  from findIndex_Some[OF Some]
  have k: "k < length expenses" "ident (expenses ! k) = i" "\<forall>j < k. ident (expenses ! j) \<noteq> i"
    by auto
  then have mem: "i \<in> ident ` set expenses"
    by (metis imageI nth_mem)
  have del: "delete_expense i expenses = (Success 200 (expenses ! k), ?rest)"
    using Some by (simp add: delete_expense_def)
  have gone: "i \<notin> ident ` set ?rest" if "distinct (map ident expenses)"
    using distinct_remove_nth[OF that k(1)] k(2) by simp
  have again: "fst (delete_expense i ?rest) = Failure 404 ''Expense not found''"
    if "distinct (map ident expenses)"
  proof -
    from gone[OF that] have "findIndex (\<lambda>e. ident e = i) ?rest = None"
      unfolding findIndex_None by blast
    then show ?thesis by (simp add: delete_expense_def)
  qed
  show ?thesis
    using k mem del gone again delete_expense_distinct[of expenses i] subseq_take_drop[of k expenses]
    by (auto simp: list_expenses_def)
qed

text \<open>
  On the sample store: deleting \<open>id-2\<close> twice fails the second time, and an
  unknown identifier is reported.
\<close>

theorem delete_expense_removes_witness:
  "distinct (map ident sample_store)
   \<and> ''id-2'' \<in> ident ` set sample_store
   \<and> fst (delete_expense ''id-2'' (snd (delete_expense ''id-2'' sample_store)))
       = Failure 404 ''Expense not found''
   \<and> ''id-9'' \<notin> ident ` set sample_store
   \<and> delete_expense ''id-9'' sample_store = (Failure 404 ''Expense not found'', sample_store)"
proof -
  have h0: "distinct (map ident sample_store)"
    by (simp add: sample_ids)
  have h1: "''id-2'' \<in> ident ` set sample_store" and h2: "''id-9'' \<notin> ident ` set sample_store"
    using sample_ids by (simp_all flip: set_map)
  from h0 delete_expense_removes[where i = "''id-2''" and expenses = sample_store]
  have "fst (delete_expense ''id-2'' (snd (delete_expense ''id-2'' sample_store)))
       = Failure 404 ''Expense not found''"
    by blast
  moreover from h2 delete_expense_removes[where i = "''id-9''" and expenses = sample_store]
  have "delete_expense ''id-9'' sample_store = (Failure 404 ''Expense not found'', sample_store)"
    by blast
  ultimately show ?thesis using h0 h1 h2 by blast
qed

text \<open>
  Claim C4, as the code has it. Creation is refused with status 400 exactly when
  \<open>amount\<close>, \<open>category\<close> or \<open>date\<close> is falsy: absent, \<open>null\<close>, the empty string, for
  \<open>amount\<close> the number \<open>0\<close> or \<open>NaN\<close>, or for \<open>category\<close> a falsy value that is not a string
  (\<open>0\<close> or \<open>false\<close>). A refusal leaves the store as it was. Otherwise
  the new record carries the given identifier, \<open>parseFloat\<close> of the amount and the given
  category and date, is appended at the end of the store and is returned with status
  201; an identifier not yet in the store keeps the identifiers distinct.
\<close>

theorem create_expense_validation:
  "((\<exists>msg. fst (create_expense uuid amt cat dat descr expenses) = Failure 400 msg) \<longleftrightarrow>
      amt \<in> {Undefined, Null, Val (Str []), Val (Num (Finite 0)), Val (Num NaN)}
      \<or> cat \<in> {Undefined, Null, Val (JString [])} \<or> (\<exists>k. cat = Val (JOther False k))
      \<or> dat \<in> {Undefined, Null, Val []})
   \<and> ((\<exists>msg. fst (create_expense uuid amt cat dat descr expenses) = Failure 400 msg) \<longrightarrow>
         snd (create_expense uuid amt cat dat descr expenses) = expenses)
   \<and> ((\<exists>e. create_expense uuid amt cat dat descr expenses = (Success 201 e, expenses @ [e])
           \<and> ident e = uuid \<and> amount e = parseFloat amt \<and> Val (category e) = cat
           \<and> Val (date e) = dat)
       \<or> create_expense uuid amt cat dat descr expenses
            = (Failure 400 ''Amount, category, and date are required'', expenses))
   \<and> (uuid \<notin> ident ` set expenses \<and> distinct (map ident expenses) \<longrightarrow>
         distinct (map ident (snd (create_expense uuid amt cat dat descr expenses))))"
proof -
  have a: "\<not> truthy_numeric amt \<longleftrightarrow>
      amt \<in> {Undefined, Null, Val (Str []), Val (Num (Finite 0)), Val (Num NaN)}"
  proof (cases amt)
    case (Val v)
    then show ?thesis
    proof (cases v)
      case (Num n)
      with Val show ?thesis by (cases n) auto
    next
      case (Str s)
      with Val show ?thesis by auto
    qed
  qed auto
  have s: "\<not> truthy_string p \<longleftrightarrow> p \<in> {Undefined, Null, Val []}" for p
    by (cases p) auto
  have c: "\<not> truthy_value cat \<longleftrightarrow>
      cat \<in> {Undefined, Null, Val (JString [])} \<or> (\<exists>k. cat = Val (JOther False k))"
    by (cases cat rule: truthy_value.cases) auto
  have v: "truthy_string p \<Longrightarrow> Val (the_string p) = p" for p
    by (cases p) auto
  have w: "truthy_value p \<Longrightarrow> Val (the_value p) = p" for p
    by (cases p) auto
  have "(amt \<in> {Undefined, Null, Val (Str []), Val (Num (Finite 0)), Val (Num NaN)}
      \<or> cat \<in> {Undefined, Null, Val (JString [])} \<or> (\<exists>k. cat = Val (JOther False k))
      \<or> dat \<in> {Undefined, Null, Val []})
     \<longleftrightarrow> \<not> truthy_numeric amt \<or> \<not> truthy_value cat \<or> \<not> truthy_string dat"
    using a c s[of dat] by blast
  then show ?thesis
    by (auto simp: create_expense_def Let_def v w)
qed

text \<open>
  An empty amount is refused and the store stays as it was; an accepted request with a new
  identifier keeps the identifiers distinct.
\<close>

theorem create_expense_validation_witness:
  "(\<exists>msg. fst (create_expense ''id-4'' (Val (Str [])) (Val (JString ''Food'')) (Val ''2024-01-02'') Undefined sample_store)
        = Failure 400 msg)
   \<and> snd (create_expense ''id-4'' (Val (Str [])) (Val (JString ''Food'')) (Val ''2024-01-02'') Undefined sample_store)
       = sample_store
   \<and> ''id-4'' \<notin> ident ` set sample_store \<and> distinct (map ident sample_store)
   \<and> distinct (map ident (snd (create_expense ''id-4'' (Val (Num (Finite 12))) (Val (JString ''Food''))
                                  (Val ''2024-01-02'') Undefined sample_store)))"
proof -
  have h0: "distinct (map ident sample_store)"
    by (simp add: sample_ids)
  have h1: "''id-4'' \<notin> ident ` set sample_store"
    using sample_ids by (simp flip: set_map)
  note a = create_expense_validation[where uuid = "''id-4''" and amt = "Val (Str [])"
      and cat = "Val (JString ''Food'')" and dat = "Val ''2024-01-02''" and descr = Undefined
      and expenses = sample_store]
  from a have f: "\<exists>msg. fst (create_expense ''id-4'' (Val (Str [])) (Val (JString ''Food'')) (Val ''2024-01-02'') Undefined sample_store)
        = Failure 400 msg"
    by blast
  with a have "snd (create_expense ''id-4'' (Val (Str [])) (Val (JString ''Food'')) (Val ''2024-01-02'') Undefined sample_store)
       = sample_store"
    by blast
  moreover from h0 h1 create_expense_validation[where uuid = "''id-4''"
      and amt = "Val (Num (Finite 12))" and cat = "Val (JString ''Food'')" and dat = "Val ''2024-01-02''"
      and descr = Undefined and expenses = sample_store]
  have "distinct (map ident (snd (create_expense ''id-4'' (Val (Num (Finite 12))) (Val (JString ''Food''))
                                  (Val ''2024-01-02'') Undefined sample_store)))"
    by blast
  ultimately show ?thesis using f h0 h1 by blast
qed

text \<open>
  As the specification states it, the property fails for the amount \<open>0\<close>: it is
  present, not empty and not \<open>null\<close>, and the request is refused.
\<close>

theorem create_expense_zero_amount_counterexample:
  "fst (create_expense ''id-4'' (Val (Num (Finite 0))) (Val (JString ''Food'')) (Val ''2024-01-02'') Undefined [])
     = Failure 400 ''Amount, category, and date are required''
   \<and> Val (Num (Finite 0)) \<notin> {Undefined, Null, Val (Str [])}
   \<and> Val (JString ''Food'') \<notin> {Undefined, Null, Val (JString [])}
   \<and> Val ''2024-01-02'' \<notin> {Undefined, Null, Val []}"
  by (simp add: create_expense_def)

text \<open>
  Claim C8, as the code has it. After a successful create, and after a successful update
  that supplies an amount, the stored amount is \<open>parseFloat\<close> of the supplied amount,
  whatever its sign or size. When the supplied amount is a finite positive number, the
  stored amount is that number, finite and positive.
\<close>

theorem stored_amount_is_parsed:
  "(\<forall>e. fst (create_expense uuid amt cat dat descr expenses) = Success 201 e \<longrightarrow>
       amount e = parseFloat amt)
   \<and> (\<forall>r. amt = Val (Num (Finite r)) \<and> 0 < r \<and> truthy_value cat \<and> truthy_string dat \<longrightarrow>
        (\<exists>e. fst (create_expense uuid amt cat dat descr expenses) = Success 201 e
           \<and> amount e = Finite r \<and> finite_positive (amount e)))
   \<and> (\<forall>e. fst (update_expense i amt cat dat descr expenses) = Success 200 e \<and> amt \<noteq> Undefined \<longrightarrow>
        amount e = parseFloat amt)
   \<and> (\<forall>r. amt = Val (Num (Finite r)) \<and> 0 < r \<and> i \<in> ident ` set expenses \<longrightarrow>
        (\<exists>e. fst (update_expense i amt cat dat descr expenses) = Success 200 e
           \<and> amount e = Finite r \<and> finite_positive (amount e)))"
proof (intro conjI impI allI)
  show "amount e = parseFloat amt"
    if "fst (create_expense uuid amt cat dat descr expenses) = Success 201 e" for e
    using that by (auto simp: create_expense_def Let_def split: if_splits)
  show "\<exists>e. fst (create_expense uuid amt cat dat descr expenses) = Success 201 e
           \<and> amount e = Finite r \<and> finite_positive (amount e)"
    if "amt = Val (Num (Finite r)) \<and> 0 < r \<and> truthy_value cat \<and> truthy_string dat" for r
    using that by (simp add: create_expense_def Let_def)
  show "amount e = parseFloat amt"
    if "fst (update_expense i amt cat dat descr expenses) = Success 200 e \<and> amt \<noteq> Undefined" for e
    using that by (auto simp: update_expense_def Let_def split: option.splits)
  show "\<exists>e. fst (update_expense i amt cat dat descr expenses) = Success 200 e
           \<and> amount e = Finite r \<and> finite_positive (amount e)"
    if "amt = Val (Num (Finite r)) \<and> 0 < r \<and> i \<in> ident ` set expenses" for r
  proof -
    from that obtain k where "findIndex (\<lambda>e. ident e = i) expenses = Some k"
      using findIndex_None[of "\<lambda>e. ident e = i" expenses]
      by (cases "findIndex (\<lambda>e. ident e = i) expenses") auto
    with that show ?thesis
      by (simp add: update_expense_def Let_def)
  qed
qed

text \<open>The amount \<open>12\<close> on create and on update.\<close>

theorem stored_amount_is_parsed_witness:
  "(0::rat) < 12 \<and> truthy_value (Val (JString ''Food'')) \<and> truthy_string (Val ''2024-01-02'')
   \<and> (\<exists>e. fst (create_expense ''id-4'' (Val (Num (Finite 12))) (Val (JString ''Food'')) (Val ''2024-01-02'')
                Undefined sample_store) = Success 201 e
          \<and> amount e = Finite 12 \<and> finite_positive (amount e))
   \<and> ''id-2'' \<in> ident ` set sample_store
   \<and> (\<exists>e. fst (update_expense ''id-2'' (Val (Num (Finite 12))) Undefined Undefined Undefined sample_store)
              = Success 200 e
          \<and> amount e = Finite 12 \<and> finite_positive (amount e))"
proof -
  have h: "(0::rat) < 12 \<and> truthy_value (Val (JString ''Food'')) \<and> truthy_string (Val ''2024-01-02'')"
    by simp
  have h1: "''id-2'' \<in> ident ` set sample_store"
    using sample_ids by (simp flip: set_map)
  from h stored_amount_is_parsed[where uuid = "''id-4''" and amt = "Val (Num (Finite 12))"
      and cat = "Val (JString ''Food'')" and dat = "Val ''2024-01-02''" and descr = Undefined
      and expenses = sample_store]
  have "\<exists>e. fst (create_expense ''id-4'' (Val (Num (Finite 12))) (Val (JString ''Food'')) (Val ''2024-01-02'')
                Undefined sample_store) = Success 201 e
          \<and> amount e = Finite 12 \<and> finite_positive (amount e)"
    by blast
  moreover from h h1 stored_amount_is_parsed[where i = "''id-2''" and amt = "Val (Num (Finite 12))"
      and cat = Undefined and dat = Undefined and descr = Undefined and expenses = sample_store]
  have "\<exists>e. fst (update_expense ''id-2'' (Val (Num (Finite 12))) Undefined Undefined Undefined sample_store)
              = Success 200 e
          \<and> amount e = Finite 12 \<and> finite_positive (amount e)"
    by blast
  ultimately show ?thesis using h h1 by blast
qed

text \<open>
  As the specification states it, the property fails for the amount \<open>-5\<close>: the
  request is accepted and the stored amount is negative.
\<close>

theorem create_expense_negative_amount_counterexample:
  "create_expense ''id-4'' (Val (Num (Finite (- 5)))) (Val (JString ''Food'')) (Val ''2024-01-02'') Undefined []
     = (Success 201 (expense_of ''id-4'' (Finite (- 5)) ''Food''\<lparr>date := ''2024-01-02''\<rparr>),
        [expense_of ''id-4'' (Finite (- 5)) ''Food''\<lparr>date := ''2024-01-02''\<rparr>])
   \<and> \<not> finite_positive (amount (expense_of ''id-4'' (Finite (- 5)) ''Food''\<lparr>date := ''2024-01-02''\<rparr>))"
  by (simp add: create_expense_def expense_of_def Let_def)

text \<open>
  Claim C7, as the code has it. Creating a category fails with status 400 and the message
  \<open>Category name is required\<close> when the name is absent, \<open>null\<close>, empty or blank after
  trimming; it fails with status 400 and the message \<open>Category already exists\<close> when the
  trimmed name equals a registered one after \<open>toLowerCase\<close> on both sides; otherwise the
  trimmed name is appended to the registry and returned with status 201. The two failures
  carry the same status and differ in their message only.
\<close>

theorem create_category_outcomes:
  "(name \<in> {Undefined, Null} \<or> trim (the_string name) = [] \<longrightarrow>
      create_category name categories = (Failure 400 ''Category name is required'', categories))
   \<and> (\<forall>s. name = Val s \<and> trim s \<noteq> [] \<and> (\<exists>c \<in> set categories. toLowerCase c = toLowerCase (trim s)) \<longrightarrow>
         create_category name categories = (Failure 400 ''Category already exists'', categories))
   \<and> (\<forall>s. name = Val s \<and> trim s \<noteq> [] \<and> (\<forall>c \<in> set categories. toLowerCase c \<noteq> toLowerCase (trim s)) \<longrightarrow>
         create_category name categories = (Success 201 (trim s), categories @ [trim s]))"
proof -
  have "trim [] = []" by (simp add: trim_def)
  then have t: "trim s \<noteq> [] \<Longrightarrow> s \<noteq> []" for s by auto
  show ?thesis
    by (cases name) (auto simp: create_category_def list_ex_iff Let_def dest: t)
qed

text \<open>
  A blank name, a name that differs from \<open>Food\<close> in case only, and a new name.
\<close>

theorem create_category_outcomes_witness:
  "create_category (Val ''   '') initial_categories
     = (Failure 400 ''Category name is required'', initial_categories)
   \<and> create_category (Val '' food'') initial_categories
     = (Failure 400 ''Category already exists'', initial_categories)
   \<and> create_category (Val '' Travel '') initial_categories
     = (Success 201 ''Travel'', initial_categories @ [''Travel''])"
proof -
  have t1: "trim ''   '' = []" and t2: "trim '' food'' = ''food''" and t3: "trim '' Travel '' = ''Travel''"
    by code_simp+
  have dup: "\<exists>c \<in> set initial_categories. toLowerCase c = toLowerCase ''food''"
    unfolding list_ex_iff[symmetric] by code_simp
  have new: "\<forall>c \<in> set initial_categories. toLowerCase c \<noteq> toLowerCase ''Travel''"
    unfolding list_all_iff[symmetric] by code_simp
  from t1 create_category_outcomes[where name = "Val ''   ''" and categories = initial_categories]
  have "create_category (Val ''   '') initial_categories
     = (Failure 400 ''Category name is required'', initial_categories)"
    by simp
  moreover from t2 dup create_category_outcomes[where name = "Val '' food''" and categories = initial_categories]
  have "create_category (Val '' food'') initial_categories
     = (Failure 400 ''Category already exists'', initial_categories)"
    by simp
  moreover from t3 new create_category_outcomes[where name = "Val '' Travel ''" and categories = initial_categories]
  have "create_category (Val '' Travel '') initial_categories
     = (Success 201 ''Travel'', initial_categories @ [''Travel''])"
    by simp
  ultimately show ?thesis by simp
qed

text \<open>
  As the specification states it, the property fails: a blank name and a duplicate name are
  both answered with status 400.
\<close>

theorem create_category_status_counterexample:
  "fst (create_category (Val ''   '') initial_categories) = Failure 400 ''Category name is required''
   \<and> fst (create_category (Val ''food'') initial_categories) = Failure 400 ''Category already exists''
   \<and> status (fst (create_category (Val ''   '') initial_categories))
       = status (fst (create_category (Val ''food'') initial_categories))"
  by code_simp







text \<open>
  Claim C9. The percentage never divides by zero. For a grand total of \<open>0\<close> it is the
  number \<open>0\<close>. For a positive grand total it is \<open>toFixed(1)\<close> of the product of the
  quotient \<open>total / grandTotal\<close> and \<open>100\<close>, each operation rounded to a double; and
  \<open>toFixed(1)\<close> of a finite number below \<open>10^21\<close> in magnitude gives the number of tenths
  nearest to it, so the text is within \<open>0.05\<close> of the magnitude.
\<close>

theorem percentage_safe:
  "percentage t g \<noteq> Inl DivisionByZero
   \<and> (g = Finite 0 \<longrightarrow> percentage t g = Inr Zero)
   \<and> (js_positive g \<longrightarrow>
        (\<exists>q. js_div t g = Inr q \<and> percentage t g = Inr (Fixed (toFixed1 (js_mul q (Finite 100))))))
   \<and> (\<forall>a b. t = Finite a \<and> g = Finite b \<and> 0 < b \<longrightarrow>
        percentage t g = Inr (Fixed (toFixed1 (js_mul (round_double (a / b)) (Finite 100)))))
   \<and> (\<forall>a. \<bar>a\<bar> < 10 ^ 21 \<longrightarrow>
        (\<exists>n. toFixed1 (Finite a) = Digits (a < 0) n \<and> 0 \<le> n \<and> \<bar>of_int n / 10 - \<bar>a\<bar>\<bar> \<le> 1 / 20))"
proof (intro conjI impI allI)
  show "percentage t g \<noteq> Inl DivisionByZero"
    using js_div_positive[of g t] by (auto simp: percentage_def)
  show "percentage t g = Inr Zero" if "g = Finite 0"
    using that by (simp add: percentage_def)
  show "\<exists>q. js_div t g = Inr q \<and> percentage t g = Inr (Fixed (toFixed1 (js_mul q (Finite 100))))"
    if "js_positive g"
    using that js_div_positive[OF that, of t] by (auto simp: percentage_def)
  show "percentage t g = Inr (Fixed (toFixed1 (js_mul (round_double (a / b)) (Finite 100))))"
    if "t = Finite a \<and> g = Finite b \<and> 0 < b" for a b
    using that by (simp add: percentage_def)
  show "\<exists>n. toFixed1 (Finite a) = Digits (a < 0) n \<and> 0 \<le> n \<and> \<bar>of_int n / 10 - \<bar>a\<bar>\<bar> \<le> 1 / 20"
    if "\<bar>a\<bar> < 10 ^ 21" for a
    using that by (rule toFixed1_nearest)
qed

text \<open>
  One third is \<open>33.3\<close> per cent, a grand total of \<open>0\<close> gives
  \<open>0\<close>, and \<open>0.25\<close> is within \<open>0.05\<close> of its text.
\<close>

theorem percentage_safe_witness:
  "js_positive (Finite 3)
   \<and> percentage (Finite 1) (Finite 3) = Inr (Fixed (Digits False 333))
   \<and> percentage (Finite 1) (Finite 0) = Inr Zero
   \<and> \<bar>1 / 4 :: rat\<bar> < 10 ^ 21
   \<and> (\<exists>n. toFixed1 (Finite (1 / 4)) = Digits (1 / 4 < (0::rat)) n \<and> 0 \<le> n
          \<and> \<bar>of_int n / 10 - \<bar>1 / 4 :: rat\<bar>\<bar> \<le> 1 / 20)"
proof -
  have h: "js_positive (Finite 3)" by simp
  have b: "\<bar>1 / 4 :: rat\<bar> < 10 ^ 21" by simp
  have "percentage (Finite 1) (Finite 3)
      = Inr (Fixed (toFixed1 (js_mul (round_double (1 / 3)) (Finite 100))))"
    using percentage_safe[where t = "Finite 1" and g = "Finite 3"] by simp
  moreover have "toFixed1 (js_mul (round_double (1 / 3)) (Finite 100)) = Digits False 333"
    by code_simp
  moreover have "percentage (Finite 1) (Finite 0) = Inr Zero"
    using percentage_safe[where t = "Finite 1" and g = "Finite 0"] by simp
  moreover have "\<exists>n. toFixed1 (Finite (1 / 4)) = Digits (1 / 4 < (0::rat)) n \<and> 0 \<le> n
          \<and> \<bar>of_int n / 10 - \<bar>1 / 4 :: rat\<bar>\<bar> \<le> 1 / 20"
    using b percentage_safe[where t = "Finite 1" and g = "Finite 0"] by blast
  ultimately show ?thesis using h b by simp
qed

section \<open>Examples\<close>

subsection \<open>Scenarios\<close>

text \<open>Two expenses of 50 and 30 in the category Food: the summary is Food 80, total 80.\<close>

lemma scenario_one_category:
  "summarize
     (snd (create_expense ''id-2'' (Val (Num (Finite 30))) (Val (JString ''Food'')) (Val ''2024-01-02'') Undefined
       (snd (create_expense ''id-1'' (Val (Num (Finite 50))) (Val (JString ''Food'')) (Val ''2024-01-01'')
               Undefined []))))
     = ([(''Food'', Number (Finite 80))], Finite 80)"
  by code_simp

text \<open>
  Food 20 and Transport 30, then the Food expense is moved to Transport: the summary is
  Transport 50 only.
\<close>

lemma scenario_update_category:
  "summarize
     (snd (update_expense ''id-1'' Undefined (Val (JString ''Transport'')) Undefined Undefined
       (snd (create_expense ''id-2'' (Val (Num (Finite 30))) (Val (JString ''Transport'')) (Val ''2024-01-02'')
               Undefined
         (snd (create_expense ''id-1'' (Val (Num (Finite 20))) (Val (JString ''Food'')) (Val ''2024-01-01'')
                 Undefined []))))))
     = ([(''Transport'', Number (Finite 50))], Finite 50)"
  by code_simp

subsection \<open>Outside the conditions of the summary theorems\<close>

text \<open>
  A category that names a member of \<open>Object.prototype\<close> has a text as its total, and the
  category \<open>__proto__\<close> has no row at all.
\<close>

lemma summarize_prototype_member:
  "summarize [expense_of ''id-1'' (Finite 5) ''constructor'',
              expense_of ''id-2'' (Finite 7) ''constructor'']
     = ([(''constructor'', Text ''constructor'' [Finite 5, Finite 7])], Finite 12)"
  by code_simp

lemma summarize_proto:
  "summarize [expense_of ''id-1'' (Finite 5) ''__proto__''] = ([], Finite 5)"
  by code_simp

text \<open>
  A total that is \<open>NaN\<close> is falsy, so the next amount of the category starts from \<open>0\<close>
  again, while the grand total stays \<open>NaN\<close>. Such an amount enters the store through a
  string that is not a numeral.
\<close>

lemma summarize_after_NaN:
  "summarize [expense_of ''id-1'' NaN ''Food'', expense_of ''id-2'' (Finite 5) ''Food'']
     = ([(''Food'', Number (Finite 5))], NaN)"
  by code_simp

lemma create_expense_not_a_number:
  "create_expense ''id-1'' (Val (Str ''abc'')) (Val (JString ''Food'')) (Val ''2024-01-01'') Undefined []
     = (Success 201 (expense_of ''id-1'' NaN ''Food''), [expense_of ''id-1'' NaN ''Food''])"
  by code_simp

lemma parseFloat_examples:
  "parseFloat (Val (Str ''12.50'')) = Finite (25 / 2)"
  "parseFloat (Val (Str ''  -3e2 rupees'')) = Finite (- 300)"
  "parseFloat (Val (Str ''.5'')) = Finite (1 / 2)"
  "parseFloat (Val (Str ''Infinity'')) = PosInf"
  "parseFloat (Val (Str [])) = NaN"
  "parseFloat Null = NaN"
  by code_simp+

end
